theory Spec2Isabelle
  imports Main "HOL-Library.Word" "HOL-Library.Signed_Division"
begin

section \<open>Data model of sensord's socket handler\<close>

text \<open>
  The development embeds \<^verbatim>\<open>src/sensord/sockethandler.cpp\<close> (classes \<^verbatim>\<open>SessionData\<close>
  and \<^verbatim>\<open>SocketHandler\<close>) and the inline virtual hook of \<^verbatim>\<open>src/sensord/nodebase.h\<close>.

  A \<^verbatim>\<open>QLocalSocket*\<close> is an address; the null pointer is \<open>None\<close>. A payload
  \<^verbatim>\<open>(const void* source, int size)\<close> is the list of the \<^verbatim>\<open>size\<close> bytes behind
  \<^verbatim>\<open>source\<close>. A C \<^verbatim>\<open>int\<close> that is compared with a \<^verbatim>\<open>long\<close> is a 32-bit word read
  with \<open>sint\<close>; session identifiers, on which no arithmetic is done, are integers.
\<close>

type_synonym handle = nat
type_synonym byte = "8 word"

text \<open>\<^verbatim>\<open>struct timeval\<close>: seconds and microseconds, both \<^verbatim>\<open>long\<close>.\<close>

record timeval =
  tv_sec :: int
  tv_usec :: int

text \<open>
  \<^verbatim>\<open>QTimer\<close> is a class of the Qt library. Its documented contract, which is all the
  code relies on: \<^verbatim>\<open>timerId()\<close> is the identifier of the timer if the timer is running
  and \<^verbatim>\<open>-1\<close> otherwise; \<^verbatim>\<open>start(msec)\<close> (re)starts the timer with that timeout;
  \<^verbatim>\<open>stop()\<close> makes it inactive. The identifier of a running timer is chosen by the
  event dispatcher and is positive; the code only compares it with \<^verbatim>\<open>-1\<close>, so the
  model fixes it to 1.
\<close>

record QTimer =
  qt_id :: int
  qt_inter :: int

definition QTimer_init :: QTimer where
  "QTimer_init = \<lparr>qt_id = -1, qt_inter = 0\<rparr>"

definition QTimer_timerId :: "QTimer \<Rightarrow> int" where
  "QTimer_timerId t = qt_id t"

definition QTimer_isActive :: "QTimer \<Rightarrow> bool" where
  "QTimer_isActive t = (qt_id t \<noteq> -1)"

definition QTimer_start :: "int \<Rightarrow> QTimer \<Rightarrow> QTimer" where
  "QTimer_start msec t = \<lparr>qt_id = 1, qt_inter = msec\<rparr>"

definition QTimer_stop :: "QTimer \<Rightarrow> QTimer" where
  "QTimer_stop t = t\<lparr>qt_id := -1\<rparr>"

text \<open>
  The members of \<^verbatim>\<open>SessionData\<close>, as its constructor initialises them. The buffer is
  a \<^verbatim>\<open>char*\<close>: \<open>None\<close> is the null pointer, \<open>Some bs\<close> an allocated array.
\<close>

record SessionData =
  socket :: "handle option"
  interval :: "32 word"
  buffer :: "byte list option"
  size' :: int
  lastWrite :: timeval
  timer :: QTimer

text \<open>What a call does to the outside world, in order.\<close>

datatype event =
    SocketWrite handle "byte list"
  | Delete handle
  | Bind string
  | Unlink string

text \<open>Undefined behaviour and aborts of the C++ are values of their own.\<close>

datatype fault =
    NullPointerDereference
  | EndIteratorDereference
  | AssertionFailed

text \<open>
  What a call reads from the outside world: the clock reading of
  \<^verbatim>\<open>gettimeofday(&now, 0)\<close> inside \<^verbatim>\<open>sinceLastWrite\<close>, the clock reading of
  \<^verbatim>\<open>gettimeofday(&lastWrite, 0)\<close>, and the value that \<^verbatim>\<open>QLocalSocket::write\<close>
  returns (the number of bytes written, or \<^verbatim>\<open>-1\<close> on error).
\<close>

record env =
  now_since :: timeval
  now_stamp :: timeval
  sock_result :: int

section \<open>SessionData\<close>

definition SessionData_init :: "handle \<Rightarrow> SessionData" where
  "SessionData_init sock =
     \<lparr>socket = Some sock, interval = -1, buffer = None, size' = 0,
      lastWrite = \<lparr>tv_sec = 0, tv_usec = 0\<rparr>, timer = QTimer_init\<rparr>"

text \<open>\<^verbatim>\<open>LONG_MAX\<close> of \<^verbatim>\<open><limits.h>\<close>, for a 64-bit \<^verbatim>\<open>long\<close>.\<close>

definition LONG_MAX :: int where
  "LONG_MAX = 2 ^ 63 - 1"

text \<open>
  \<^verbatim>\<open>sinceLastWrite\<close>: the C++ division truncates towards zero (\<open>sdiv\<close>). The
  arithmetic is that of \<^verbatim>\<open>long\<close>, whose overflow is undefined; the integers here
  are exact wherever the C++ is defined.
\<close>

definition sinceLastWrite :: "timeval \<Rightarrow> SessionData \<Rightarrow> int" where
  "sinceLastWrite now s =
     (if tv_sec (lastWrite s) = 0 then LONG_MAX
      else (tv_sec now - tv_sec (lastWrite s)) * 1000
           + ((tv_usec now - tv_usec (lastWrite s)) sdiv 1000))"

text \<open>\<^verbatim>\<open>socket->write(data, size)\<close>: the value returned and the effect.\<close>

definition QLocalSocket_write :: "env \<Rightarrow> handle \<Rightarrow> byte list \<Rightarrow> int \<times> event list" where
  "QLocalSocket_write e h bytes = (sock_result e, [SocketWrite h bytes])"

text \<open>
  The two statements that both pass-through branches of \<^verbatim>\<open>SessionData::write\<close>
  share: stamp \<^verbatim>\<open>lastWrite\<close>, then write to the socket and turn a negative return
  into \<^verbatim>\<open>false\<close>.
\<close>

definition pass_through ::
  "env \<Rightarrow> byte list \<Rightarrow> SessionData \<Rightarrow> fault + (bool \<times> SessionData \<times> event list)" where
  "pass_through e source s =
     (let s1 = s\<lparr>lastWrite := now_stamp e\<rparr> in
      case socket s1 of
        None \<Rightarrow> Inl NullPointerDereference
      | Some h \<Rightarrow>
          (let (r, evs) = QLocalSocket_write e h source
           in Inr (if r < 0 then False else True, s1, evs)))"

text \<open>
  \<^verbatim>\<open>new char[n]\<close> (contents indeterminate, here zero) and \<^verbatim>\<open>memcpy\<close> of the whole
  payload to the start of the array.
\<close>

definition new_char :: "int \<Rightarrow> byte list" where
  "new_char n = replicate (nat n) 0"

definition memcpy :: "byte list \<Rightarrow> byte list \<Rightarrow> byte list" where
  "memcpy dest source = source @ drop (length source) dest"

text \<open>The conversion of the \<^verbatim>\<open>long\<close> argument of \<^verbatim>\<open>timer.start(int)\<close>.\<close>

definition long_to_int :: "int \<Rightarrow> int" where
  "long_to_int n = sint (word_of_int n :: 32 word)"

definition SessionData_write ::
  "env \<Rightarrow> byte list \<Rightarrow> SessionData \<Rightarrow> fault + (bool \<times> SessionData \<times> event list)" where
  "SessionData_write e source s =
     (if interval s = -1 then pass_through e source s
      else
        let since = sinceLastWrite (now_since e) s in
        if since \<ge> sint (interval s) then pass_through e source s
        else
          let sz = int (length source);
              buffer1 = (case buffer s of
                           None \<Rightarrow> new_char sz
                         | Some b \<Rightarrow> if sz \<noteq> size' s then new_char sz else b);
              s1 = s\<lparr>buffer := Some (memcpy buffer1 source), size' := sz\<rparr>
          in if QTimer_timerId (timer s1) \<noteq> -1
             then Inr (True,
                       s1\<lparr>timer := QTimer_start (long_to_int (sint (interval s) - since)) (timer s1)\<rparr>,
                       [])
             else Inr (True, s1, []))"

text \<open>
  \<^verbatim>\<open>delayedWrite\<close>, the slot of the timer's \<^verbatim>\<open>timeout()\<close>. It is \<^verbatim>\<open>void\<close>: the
  value of \<^verbatim>\<open>socket->write\<close> is dropped.
\<close>

definition SessionData_delayedWrite ::
  "env \<Rightarrow> SessionData \<Rightarrow> fault + (SessionData \<times> event list)" where
  "SessionData_delayedWrite e s =
     (let s1 = s\<lparr>timer := QTimer_stop (timer s), lastWrite := now_stamp e\<rparr> in
      case socket s1 of
        None \<Rightarrow> Inl NullPointerDereference
      | Some h \<Rightarrow>
          (let bytes = take (nat (size' s1)) (case buffer s1 of None \<Rightarrow> [] | Some b \<Rightarrow> b);
               (r, evs) = QLocalSocket_write e h bytes
           in Inr (s1, evs)))"

definition SessionData_stealSocket :: "SessionData \<Rightarrow> handle option \<times> SessionData" where
  "SessionData_stealSocket s = (socket s, s\<lparr>socket := None\<rparr>)"

definition SessionData_setInterval :: "32 word \<Rightarrow> SessionData \<Rightarrow> SessionData" where
  "SessionData_setInterval i s = s\<lparr>interval := i\<rparr>"

text \<open>
  \<^verbatim>\<open>~SessionData\<close>: the timer is stopped, the buffer freed, and \<^verbatim>\<open>delete socket\<close>
  frees the socket unless the pointer is null.
\<close>

definition SessionData_destroy :: "SessionData \<Rightarrow> event list" where
  "SessionData_destroy s = (case socket s of None \<Rightarrow> [] | Some h \<Rightarrow> [Delete h])"

section \<open>SocketHandler\<close>

text \<open>
  The members of \<^verbatim>\<open>SocketHandler\<close> and the Qt state it drives. Every
  \<^verbatim>\<open>SessionData\<close> is created by \<^verbatim>\<open>new\<close> in \<^verbatim>\<open>socketReadable\<close> and its pointer
  is stored in \<^verbatim>\<open>m_idMap\<close> only, so the map holds the objects themselves.
  \<^verbatim>\<open>isListening\<close> is the state of \<^verbatim>\<open>m_server\<close>; \<^verbatim>\<open>readyReadConn\<close> and
  \<^verbatim>\<open>disconnectedConn\<close> are the sockets whose signals are connected to the handler's
  slots; \<^verbatim>\<open>killTimers\<close> counts the pending \<^verbatim>\<open>QTimer::singleShot(2000, ..., killSocket())\<close>;
  \<^verbatim>\<open>trace\<close> collects the effects on the outside world. Log lines are not modelled.
\<close>

record SocketHandler =
  isListening :: bool
  m_idMap :: "int \<rightharpoonup> SessionData"
  m_tmpSocks :: "handle list"
  readyReadConn :: "handle set"
  disconnectedConn :: "handle set"
  killTimers :: nat
  trace :: "event list"

text \<open>
  \<^verbatim>\<open>m_server->listen(serverName)\<close>: whether the bind succeeds is the environment's
  choice \<open>ok\<close>; afterwards the server is listening exactly if it did.
\<close>

definition QLocalServer_listen :: "bool \<Rightarrow> string \<Rightarrow> SocketHandler \<Rightarrow> bool \<times> SocketHandler" where
  "QLocalServer_listen ok serverName h =
     (ok, h\<lparr>isListening := ok, trace := trace h @ [Bind serverName]\<rparr>)"

text \<open>\<^verbatim>\<open>serverName[0] == QChar('/')\<close>; an empty name has no such character.\<close>

definition first_is_slash :: "string \<Rightarrow> bool" where
  "first_is_slash serverName = (case serverName of [] \<Rightarrow> False | c # _ \<Rightarrow> c = CHR ''/'')"

text \<open>
  The \<^verbatim>\<open>while\<close> loop of \<^verbatim>\<open>listen\<close>. Its condition calls \<^verbatim>\<open>m_server->listen\<close> first,
  on every evaluation; \<open>bind_ok k\<close> is the outcome of the \<open>k\<close>-th such call. The body
  calls \<^verbatim>\<open>unlink\<close>, whose return value only selects a log line, and sets
  \<^verbatim>\<open>unlinkDone\<close>.
\<close>

function listen_loop ::
  "(nat \<Rightarrow> bool) \<Rightarrow> string \<Rightarrow> nat \<Rightarrow> bool \<Rightarrow> SocketHandler \<Rightarrow> SocketHandler" where
  "listen_loop bind_ok serverName k unlinkDone h =
     (if \<not> fst (QLocalServer_listen (bind_ok k) serverName h) \<and> \<not> unlinkDone
         \<and> first_is_slash serverName
      then listen_loop bind_ok serverName (Suc k) True
             ((snd (QLocalServer_listen (bind_ok k) serverName h))
                \<lparr>trace := trace (snd (QLocalServer_listen (bind_ok k) serverName h))
                            @ [Unlink serverName]\<rparr>)
      else snd (QLocalServer_listen (bind_ok k) serverName h))"
  by pat_completeness auto
termination
  by (relation "measure (\<lambda>(b, n, k, unlinkDone, h). if unlinkDone then 0 else 1)") auto

definition SocketHandler_listen ::
  "(nat \<Rightarrow> bool) \<Rightarrow> string \<Rightarrow> SocketHandler \<Rightarrow> bool \<times> SocketHandler" where
  "SocketHandler_listen bind_ok serverName h =
     (if isListening h then (False, h)
      else let h1 = listen_loop bind_ok serverName 0 False h in (isListening h1, h1))"

definition SocketHandler_write ::
  "env \<Rightarrow> int \<Rightarrow> byte list \<Rightarrow> SocketHandler \<Rightarrow> fault + (bool \<times> SocketHandler)" where
  "SocketHandler_write e id' source h =
     (case m_idMap h id' of
        None \<Rightarrow> Inr (False, h)
      | Some sd \<Rightarrow>
          (case SessionData_write e source sd of
             Inl f \<Rightarrow> Inl f
           | Inr (b, sd1, evs) \<Rightarrow>
               Inr (b, h\<lparr>m_idMap := (m_idMap h)(id' \<mapsto> sd1), trace := trace h @ evs\<rparr>)))"

text \<open>
  \<^verbatim>\<open>removeSession\<close>. The first \<^verbatim>\<open>if\<close> only logs: it has no \<^verbatim>\<open>return\<close>. The next
  statement dereferences \<^verbatim>\<open>m_idMap.find(sessionId)\<close>, which is \<^verbatim>\<open>m_idMap.end()\<close>
  when the key is absent. \<^verbatim>\<open>delete m_idMap.take(sessionId)\<close> removes the entry and
  runs the destructor on the object.
\<close>

definition SocketHandler_removeSession ::
  "int \<Rightarrow> SocketHandler \<Rightarrow> fault + (bool \<times> SocketHandler)" where
  "SocketHandler_removeSession sessionId h =
     (case m_idMap h sessionId of
        None \<Rightarrow> Inl EndIteratorDereference
      | Some sd \<Rightarrow>
          (let (sock, sd1) = SessionData_stealSocket sd;
               h1 = h\<lparr>m_idMap := (m_idMap h)(sessionId \<mapsto> sd1)\<rparr>;
               h2 = (case sock of
                       None \<Rightarrow> h1
                     | Some sk \<Rightarrow>
                         h1\<lparr>readyReadConn := readyReadConn h1 - {sk},
                            disconnectedConn := disconnectedConn h1 - {sk},
                            m_tmpSocks := m_tmpSocks h1 @ [sk],
                            killTimers := Suc (killTimers h1)\<rparr>)
           in case m_idMap h2 sessionId of
                None \<Rightarrow> Inr (True, h2)
              | Some sd2 \<Rightarrow>
                  Inr (True, h2\<lparr>m_idMap := (m_idMap h2)(sessionId := None),
                                 trace := trace h2 @ SessionData_destroy sd2\<rparr>)))"

text \<open>
  \<^verbatim>\<open>socketReadable\<close>, the slot of a socket's \<^verbatim>\<open>readyRead()\<close>. \<open>sender\<close> is the
  socket; \<open>rd\<close> is what \<^verbatim>\<open>read((char*)&sessionId, sizeof(int))\<close> stored: \<open>None\<close>
  when nothing was read, so that \<^verbatim>\<open>sessionId\<close> keeps its initial \<^verbatim>\<open>-1\<close>.
  \<^verbatim>\<open>Q_ASSERT(false)\<close> aborts.
\<close>

definition SocketHandler_socketReadable ::
  "handle \<Rightarrow> int option \<Rightarrow> SocketHandler \<Rightarrow> fault + SocketHandler" where
  "SocketHandler_socketReadable sender rd h =
     (let sessionId = (case rd of None \<Rightarrow> -1 | Some v \<Rightarrow> v);
          h1 = h\<lparr>readyReadConn := readyReadConn h - {sender}\<rparr>
      in if sessionId \<ge> 0
         then (if m_idMap h1 sessionId = None
               then Inr (h1\<lparr>m_idMap := (m_idMap h1)(sessionId \<mapsto> SessionData_init sender)\<rparr>)
               else Inr h1)
         else Inl AssertionFailed)"

definition SocketHandler_setInterval :: "int \<Rightarrow> 32 word \<Rightarrow> SocketHandler \<Rightarrow> SocketHandler" where
  "SocketHandler_setInterval sessionId v h =
     (case m_idMap h sessionId of
        None \<Rightarrow> h
      | Some sd \<Rightarrow> h\<lparr>m_idMap := (m_idMap h)(sessionId \<mapsto> SessionData_setInterval v sd)\<rparr>)"

text \<open>\<^verbatim>\<open>clearInterval\<close>: \<^verbatim>\<open>m_idMap.erase(it)\<close> removes the entry the iterator points to.\<close>

definition SocketHandler_clearInterval :: "int \<Rightarrow> SocketHandler \<Rightarrow> SocketHandler" where
  "SocketHandler_clearInterval sessionId h =
     (case m_idMap h sessionId of
        None \<Rightarrow> h
      | Some sd \<Rightarrow> h\<lparr>m_idMap := (m_idMap h)(sessionId := None)\<rparr>)"

text \<open>The handler right after construction: no session, not listening.\<close>

definition SocketHandler_init :: SocketHandler where
  "SocketHandler_init =
     \<lparr>isListening = False, m_idMap = Map.empty, m_tmpSocks = [], readyReadConn = {},
      disconnectedConn = {}, killTimers = 0, trace = []\<rparr>"

section \<open>NodeBase\<close>

text \<open>
  The members of \<^verbatim>\<open>NodeBase\<close>. \<^verbatim>\<open>DataRange\<close> and \<^verbatim>\<open>DataRangeRequest\<close> are declared
  in \<^verbatim>\<open>datarange.h\<close>, so they are type parameters; a \<^verbatim>\<open>NodeBase*\<close> is an address.
\<close>

record ('range, 'request) NodeBase =
  m_description :: string
  m_dataRangeList :: "'range list"
  m_dataRangeQueue :: "'request list"
  m_dataRangeSource :: "nat option"
  m_standbySourceList :: "nat list"
  m_standbyRequestList :: "int list"

text \<open>
  \<^verbatim>\<open>virtual bool setStandbyOverride(const bool override) { Q_UNUSED(override); return false; }\<close>:
  the value returned and the node afterwards.
\<close>

definition setStandbyOverride ::
  "bool \<Rightarrow> ('range, 'request) NodeBase \<Rightarrow> bool \<times> ('range, 'request) NodeBase" where
  "setStandbyOverride override n = (False, n)"

section \<open>Concrete inputs\<close>

text \<open>
  A channel on socket 3 limited to one write per 200 ms, whose last write was at
  second 100; no timer is armed.
\<close>

definition sd_limited :: SessionData where
  "sd_limited =
     (SessionData_init 3)\<lparr>interval := 200, lastWrite := \<lparr>tv_sec = 100, tv_usec = 0\<rparr>\<rparr>"

text \<open>The same channel with its timer armed for 180 ms.\<close>

definition sd_limited_armed :: SessionData where
  "sd_limited_armed = sd_limited\<lparr>timer := QTimer_start 180 (timer sd_limited)\<rparr>"

text \<open>A call 50 ms after second 100, on a transport that reports an error.\<close>

definition env_50ms_fail :: env where
  "env_50ms_fail =
     \<lparr>now_since = \<lparr>tv_sec = 100, tv_usec = 50000\<rparr>,
      now_stamp = \<lparr>tv_sec = 100, tv_usec = 50001\<rparr>, sock_result = -1\<rparr>"

text \<open>A call one second after second 100, on a transport that takes the two bytes.\<close>

definition env_1s_ok :: env where
  "env_1s_ok =
     \<lparr>now_since = \<lparr>tv_sec = 101, tv_usec = 0\<rparr>,
      now_stamp = \<lparr>tv_sec = 101, tv_usec = 7\<rparr>, sock_result = 2\<rparr>"

text \<open>A handler with the single session 7 on socket 3, as the handshake leaves it.\<close>

definition handler_one_session :: SocketHandler where
  "handler_one_session =
     SocketHandler_init\<lparr>m_idMap := [7 \<mapsto> SessionData_init 3], disconnectedConn := {3}\<rparr>"

text \<open>That handler after \<^verbatim>\<open>removeSession(7)\<close>: socket 3 waits in \<^verbatim>\<open>m_tmpSocks\<close>.\<close>

definition handler_after_removal :: SocketHandler where
  "handler_after_removal = SocketHandler_init\<lparr>m_tmpSocks := [3], killTimers := 1\<rparr>"

text \<open>A listening handler.\<close>

definition handler_listening :: SocketHandler where
  "handler_listening = SocketHandler_init\<lparr>isListening := True\<rparr>"

text \<open>Bind outcomes: the first attempt fails, the second succeeds; and: every attempt fails.\<close>

definition bind_second_try :: "nat \<Rightarrow> bool" where
  "bind_second_try k = (k = 1)"

definition bind_never :: "nat \<Rightarrow> bool" where
  "bind_never k = False"

section \<open>Properties\<close>

subsection \<open>Auxiliary facts\<close>

lemma pass_through_Some:
  "socket s = Some h \<Longrightarrow>
   pass_through e source s =
     Inr (\<not> sock_result e < 0, s\<lparr>lastWrite := now_stamp e\<rparr>, [SocketWrite h source])"
  by (simp add: pass_through_def QLocalSocket_write_def)

lemma sint32_le_LONG_MAX: "sint (w :: 32 word) \<le> LONG_MAX"
proof -
  have "sint w < 2 ^ (LENGTH(32) - 1)" by (rule sint_lt)
  then show ?thesis by (simp add: LONG_MAX_def)
qed

lemma since_50ms: "sinceLastWrite (now_since env_50ms_fail) sd_limited = 50"
  by (simp add: sinceLastWrite_def env_50ms_fail_def sd_limited_def SessionData_init_def
        signed_divide_int_def)

lemma since_50ms_armed: "sinceLastWrite (now_since env_50ms_fail) sd_limited_armed = 50"
  by (simp add: sinceLastWrite_def env_50ms_fail_def sd_limited_armed_def sd_limited_def
        SessionData_init_def signed_divide_int_def)

lemma since_1s: "sinceLastWrite (now_since env_1s_ok) sd_limited = 1000"
  by (simp add: sinceLastWrite_def env_1s_ok_def sd_limited_def SessionData_init_def)

lemma sd_limited_fields: "interval sd_limited = 200" "socket sd_limited = Some 3"
  by (simp_all add: sd_limited_def SessionData_init_def)

text \<open>
  In the buffering branch of \<^verbatim>\<open>SessionData::write\<close> a timer that is not running is
  never started, whatever the payload, the interval and the clock.
\<close>

lemma deferred_write_timer_stays_inactive:
  assumes "interval s \<noteq> -1" and "sinceLastWrite (now_since e) s < sint (interval s)"
    and "\<not> QTimer_isActive (timer s)"
    and "SessionData_write e source s = Inr (b, s', evs)"
  shows "\<not> QTimer_isActive (timer s') \<and> evs = []"
  using assms
  by (auto simp: SessionData_write_def Let_def QTimer_isActive_def QTimer_timerId_def)

text \<open>The calls of \<^verbatim>\<open>listen\<close> that bind once only: the bind succeeds, or the name is no path.\<close>

lemma listen_single_attempt:
  assumes "\<not> isListening h" and "bind_ok 0 \<or> \<not> first_is_slash serverName"
  shows "SocketHandler_listen bind_ok serverName h =
           (bind_ok 0, h\<lparr>isListening := bind_ok 0, trace := trace h @ [Bind serverName]\<rparr>)"
  using assms by (auto simp: SocketHandler_listen_def QLocalServer_listen_def Let_def)

subsection \<open>SessionData::write\<close>

text \<open>
  C1. The specification: a write inside the interval window copies the payload into the pending
  buffer and, if no deferred-write timer is armed, arms one for \<open>interval - elapsed\<close>
  milliseconds; if one is armed, nothing more is done. The code tests
  \<^verbatim>\<open>timer.timerId() != -1\<close>, which holds exactly when the timer is running, so the
  branches are exchanged. On the channel limited to 200 ms, 50 ms after its last write
  and with no timer armed, the payload is buffered, \<^verbatim>\<open>true\<close> is returned, and the
  timer is still not armed: nothing will ever send the buffered payload. On the same
  channel with its timer armed for 180 ms, the timer is started again, for 150 ms.
\<close>

theorem C1_deferred_write_leaves_timer_unarmed:
  "SessionData_write env_50ms_fail [1, 2] sd_limited =
     Inr (True, sd_limited\<lparr>buffer := Some [1, 2], size' := 2\<rparr>, [])
   \<and> \<not> QTimer_isActive (timer sd_limited)
   \<and> \<not> QTimer_isActive (timer (sd_limited\<lparr>buffer := Some [1, 2], size' := 2\<rparr>))
   \<and> SessionData_write env_50ms_fail [1, 2] sd_limited_armed =
       Inr (True,
            sd_limited_armed\<lparr>buffer := Some [1, 2], size' := 2,
                              timer := \<lparr>qt_id = 1, qt_inter = 150\<rparr>\<rparr>, [])
   \<and> timer sd_limited_armed = \<lparr>qt_id = 1, qt_inter = 180\<rparr>"
  by (simp add: SessionData_write_def since_50ms since_50ms_armed Let_def)
     (simp add: sd_limited_armed_def sd_limited_def SessionData_init_def QTimer_init_def
        QTimer_timerId_def QTimer_isActive_def QTimer_start_def new_char_def memcpy_def
        long_to_int_def)

text \<open>
  C4. If \<^verbatim>\<open>interval == -1\<close>, or the time since the last write is at least the interval,
  \<^verbatim>\<open>SessionData::write\<close> writes the payload to the socket at once, sets \<^verbatim>\<open>lastWrite\<close>
  to the clock reading, and returns whether the socket's \<^verbatim>\<open>write\<close> returned a
  non-negative value. The buffer and the timer are untouched.
\<close>

theorem C4_immediate_write:
  assumes "socket s = Some h"
    and "interval s = -1 \<or> sinceLastWrite (now_since e) s \<ge> sint (interval s)"
  shows "SessionData_write e source s =
           Inr (\<not> sock_result e < 0, s\<lparr>lastWrite := now_stamp e\<rparr>, [SocketWrite h source])"
  using assms by (auto simp: SessionData_write_def pass_through_Some Let_def)

text \<open>
  C4, at concrete inputs: the limited channel one second after its last write on a
  transport that succeeds, and a fresh channel (\<^verbatim>\<open>interval == -1\<close>) on a transport that
  fails.
\<close>

theorem C4_immediate_write_witness:
  "socket sd_limited = Some 3
   \<and> (interval sd_limited = -1
        \<or> sinceLastWrite (now_since env_1s_ok) sd_limited \<ge> sint (interval sd_limited))
   \<and> SessionData_write env_1s_ok [1, 2] sd_limited =
       Inr (True, sd_limited\<lparr>lastWrite := \<lparr>tv_sec = 101, tv_usec = 7\<rparr>\<rparr>,
            [SocketWrite 3 [1, 2]])
   \<and> socket (SessionData_init 3) = Some 3
   \<and> (interval (SessionData_init 3) = -1
        \<or> sinceLastWrite (now_since env_50ms_fail) (SessionData_init 3)
            \<ge> sint (interval (SessionData_init 3)))
   \<and> SessionData_write env_50ms_fail [1, 2] (SessionData_init 3) =
       Inr (False, (SessionData_init 3)\<lparr>lastWrite := \<lparr>tv_sec = 100, tv_usec = 50001\<rparr>\<rparr>,
            [SocketWrite 3 [1, 2]])"
proof -
  have a: "socket sd_limited = Some 3" by (simp add: sd_limited_fields)
  have b: "interval sd_limited = -1
        \<or> sinceLastWrite (now_since env_1s_ok) sd_limited \<ge> sint (interval sd_limited)"
    by (simp add: sd_limited_fields since_1s)
  have c: "socket (SessionData_init 3) = Some 3" by (simp add: SessionData_init_def)
  have d: "interval (SessionData_init 3) = -1
        \<or> sinceLastWrite (now_since env_50ms_fail) (SessionData_init 3)
            \<ge> sint (interval (SessionData_init 3))"
    by (simp add: SessionData_init_def)
  show ?thesis
    using a b c d C4_immediate_write [OF a b, of "[1, 2]"]
      C4_immediate_write [OF c d, of "[1, 2]"]
    by (simp add: env_50ms_fail_def env_1s_ok_def)
qed

text \<open>
  C9. While \<^verbatim>\<open>lastWrite.tv_sec\<close> is still zero, as the constructor leaves it,
  \<^verbatim>\<open>sinceLastWrite\<close> is \<^verbatim>\<open>LONG_MAX\<close>, which no \<^verbatim>\<open>int\<close> interval exceeds: the write
  takes the pass-through path whatever the interval is.
\<close>

theorem C9_first_write_immediate:
  assumes "tv_sec (lastWrite s) = 0" and "socket s = Some h"
  shows "sinceLastWrite now s = LONG_MAX
         \<and> SessionData_write e source s =
             Inr (\<not> sock_result e < 0, s\<lparr>lastWrite := now_stamp e\<rparr>, [SocketWrite h source])"
  using assms sint32_le_LONG_MAX [of "interval s"]
  by (simp add: SessionData_write_def pass_through_Some Let_def sinceLastWrite_def)

text \<open>C9, on a channel just created and then limited to 200 ms.\<close>

theorem C9_first_write_immediate_witness:
  "tv_sec (lastWrite (SessionData_setInterval 200 (SessionData_init 3))) = 0
   \<and> socket (SessionData_setInterval 200 (SessionData_init 3)) = Some 3
   \<and> SessionData_write env_50ms_fail [1, 2] (SessionData_setInterval 200 (SessionData_init 3)) =
       Inr (False,
            (SessionData_setInterval 200 (SessionData_init 3))
              \<lparr>lastWrite := \<lparr>tv_sec = 100, tv_usec = 50001\<rparr>\<rparr>,
            [SocketWrite 3 [1, 2]])"
proof -
  have a: "tv_sec (lastWrite (SessionData_setInterval 200 (SessionData_init 3))) = 0"
    by (simp add: SessionData_setInterval_def SessionData_init_def)
  have b: "socket (SessionData_setInterval 200 (SessionData_init 3)) = Some 3"
    by (simp add: SessionData_setInterval_def SessionData_init_def)
  show ?thesis
    using a b C9_first_write_immediate [OF a b, of _ env_50ms_fail "[1, 2]"]
    by (simp add: env_50ms_fail_def)
qed

text \<open>
  C10. In the buffering branch \<^verbatim>\<open>SessionData::write\<close> returns \<^verbatim>\<open>true\<close> and touches
  no socket, whatever the transport would answer; and \<^verbatim>\<open>delayedWrite\<close>, which returns
  nothing, leaves the same channel behind whatever the socket's \<^verbatim>\<open>write\<close> returns.
\<close>

theorem C10_deferred_result_not_surfaced:
  assumes "interval s \<noteq> -1" and "sinceLastWrite (now_since e) s < sint (interval s)"
  shows "(\<exists>s'. \<forall>r. SessionData_write (e\<lparr>sock_result := r\<rparr>) source s = Inr (True, s', []))
         \<and> (\<forall>r t. SessionData_delayedWrite (e\<lparr>sock_result := r\<rparr>) t =
                   SessionData_delayedWrite e t)"
  using assms
  by (auto simp: SessionData_write_def Let_def SessionData_delayedWrite_def
       QLocalSocket_write_def split: option.splits)

text \<open>C10, on the limited channel 50 ms after its last write.\<close>

theorem C10_deferred_result_not_surfaced_witness:
  "interval sd_limited \<noteq> -1
   \<and> sinceLastWrite (now_since env_50ms_fail) sd_limited < sint (interval sd_limited)
   \<and> (\<exists>s'. \<forall>r. SessionData_write (env_50ms_fail\<lparr>sock_result := r\<rparr>) [1, 2] sd_limited =
                  Inr (True, s', []))
   \<and> (\<forall>r t. SessionData_delayedWrite (env_50ms_fail\<lparr>sock_result := r\<rparr>) t =
             SessionData_delayedWrite env_50ms_fail t)"
proof -
  have a: "interval sd_limited \<noteq> -1" by (simp add: sd_limited_fields)
  have b: "sinceLastWrite (now_since env_50ms_fail) sd_limited < sint (interval sd_limited)"
    by (simp add: sd_limited_fields since_50ms)
  show ?thesis
    using a b C10_deferred_result_not_surfaced [OF a b, of "[1, 2]"] by blast
qed

subsection \<open>SocketHandler\<close>

text \<open>
  C2. The specification: \<^verbatim>\<open>removeSession\<close> on an identifier with no session is a no-op that
  only logs and never dereferences an invalid entry. The code logs but does not return,
  and then dereferences the iterator of \<^verbatim>\<open>m_idMap.find(sessionId)\<close>, which is
  \<^verbatim>\<open>end()\<close>: on a handler with no session at all, and on the second of two calls
  for session 7 (the first call succeeds and moves socket 3 to \<^verbatim>\<open>m_tmpSocks\<close>).
\<close>

theorem C2_removeSession_unknown_dereferences_end:
  "SocketHandler_removeSession 7 SocketHandler_init = Inl EndIteratorDereference
   \<and> SocketHandler_removeSession 7 handler_one_session = Inr (True, handler_after_removal)
   \<and> SocketHandler_removeSession 7 handler_after_removal = Inl EndIteratorDereference"
  by (simp add: SocketHandler_removeSession_def SocketHandler_init_def handler_one_session_def
        handler_after_removal_def SessionData_stealSocket_def SessionData_init_def
        SessionData_destroy_def)

text \<open>
  C3. The specification: \<^verbatim>\<open>clearInterval\<close> removes the rate limit only, the session stays
  registered and a later write reaches the same channel. The code erases the entry of
  \<^verbatim>\<open>m_idMap\<close>: after \<^verbatim>\<open>clearInterval(7)\<close> session 7 is gone, and a write that
  succeeded before now returns \<^verbatim>\<open>false\<close> without reaching socket 3.
\<close>

theorem C3_clearInterval_erases_session:
  "m_idMap handler_one_session 7 = Some (SessionData_init 3)
   \<and> m_idMap (SocketHandler_clearInterval 7 handler_one_session) 7 = None
   \<and> SocketHandler_write env_1s_ok 7 [1, 2] handler_one_session =
       Inr (True,
            handler_one_session
              \<lparr>m_idMap := [7 \<mapsto> (SessionData_init 3)\<lparr>lastWrite := \<lparr>tv_sec = 101, tv_usec = 7\<rparr>\<rparr>],
               trace := [SocketWrite 3 [1, 2]]\<rparr>)
   \<and> SocketHandler_write env_1s_ok 7 [1, 2] (SocketHandler_clearInterval 7 handler_one_session) =
       Inr (False, SocketHandler_clearInterval 7 handler_one_session)"
  by (simp add: handler_one_session_def SocketHandler_clearInterval_def SocketHandler_write_def
        SocketHandler_init_def SessionData_write_def SessionData_init_def pass_through_def
        QLocalSocket_write_def env_1s_ok_def)

text \<open>
  C5. The specification has \<^verbatim>\<open>write\<close> return \<^verbatim>\<open>false\<close> if and only if no
  channel is registered. That fails: \<^verbatim>\<open>write\<close> also returns \<^verbatim>\<open>false\<close> for a registered session,
  when the channel's write does. Session 7 is registered, its channel passes the
  payload through, the transport reports an error, and the result is \<^verbatim>\<open>false\<close>.
\<close>

theorem C5_write_false_with_registered_channel:
  "m_idMap handler_one_session 7 = Some (SessionData_init 3)
   \<and> SocketHandler_write env_50ms_fail 7 [1, 2] handler_one_session =
       Inr (False,
            handler_one_session
              \<lparr>m_idMap := [7 \<mapsto> (SessionData_init 3)\<lparr>lastWrite := \<lparr>tv_sec = 100, tv_usec = 50001\<rparr>\<rparr>],
               trace := [SocketWrite 3 [1, 2]]\<rparr>)"
  by (simp add: handler_one_session_def SocketHandler_write_def
        SocketHandler_init_def SessionData_write_def SessionData_init_def pass_through_def
        QLocalSocket_write_def env_50ms_fail_def)

text \<open>
  C5, amended. If no channel is registered for the identifier, \<^verbatim>\<open>write\<close> returns
  \<^verbatim>\<open>false\<close> and the handler is unchanged. If one is registered, \<^verbatim>\<open>write\<close> returns
  what that channel's write returns, the channel's new state is stored under the same
  identifier, and nothing else changes. With a channel registered (on a socket that is
  not null) the result is \<^verbatim>\<open>false\<close> exactly when the channel passes the payload
  through and the socket's \<^verbatim>\<open>write\<close> returns a negative value.
\<close>

theorem C5_write_routes_to_channel:
  "(m_idMap h i = None \<longrightarrow> SocketHandler_write e i source h = Inr (False, h))
   \<and> (m_idMap h i = Some sd \<and> SessionData_write e source sd = Inr (b, sd1, evs) \<longrightarrow>
        SocketHandler_write e i source h =
          Inr (b, h\<lparr>m_idMap := (m_idMap h)(i \<mapsto> sd1), trace := trace h @ evs\<rparr>))
   \<and> (m_idMap h i = Some sd \<and> socket sd = Some k \<longrightarrow>
        (\<exists>h'. SocketHandler_write e i source h =
           Inr (\<not> ((interval sd = -1 \<or> sinceLastWrite (now_since e) sd \<ge> sint (interval sd))
                    \<and> sock_result e < 0), h')))"
  by (auto simp: SocketHandler_write_def SessionData_write_def pass_through_Some Let_def)

text \<open>C5, amended, at session 8 (not registered) and session 7 (registered).\<close>

theorem C5_write_routes_to_channel_witness:
  "m_idMap handler_one_session 8 = None
   \<and> SocketHandler_write env_1s_ok 8 [1, 2] handler_one_session = Inr (False, handler_one_session)
   \<and> m_idMap handler_one_session 7 = Some (SessionData_init 3)
   \<and> socket (SessionData_init 3) = Some 3
   \<and> SessionData_write env_1s_ok [1, 2] (SessionData_init 3) =
       Inr (True, (SessionData_init 3)\<lparr>lastWrite := \<lparr>tv_sec = 101, tv_usec = 7\<rparr>\<rparr>,
            [SocketWrite 3 [1, 2]])
   \<and> SocketHandler_write env_1s_ok 7 [1, 2] handler_one_session =
       Inr (True,
            handler_one_session
              \<lparr>m_idMap := (m_idMap handler_one_session)
                            (7 \<mapsto> (SessionData_init 3)\<lparr>lastWrite := \<lparr>tv_sec = 101, tv_usec = 7\<rparr>\<rparr>),
               trace := trace handler_one_session @ [SocketWrite 3 [1, 2]]\<rparr>)"
proof -
  have a: "m_idMap handler_one_session 8 = None"
    by (simp add: handler_one_session_def SocketHandler_init_def)
  have b: "m_idMap handler_one_session 7 = Some (SessionData_init 3)"
    by (simp add: handler_one_session_def SocketHandler_init_def)
  have c: "SessionData_write env_1s_ok [1, 2] (SessionData_init 3) =
       Inr (True, (SessionData_init 3)\<lparr>lastWrite := \<lparr>tv_sec = 101, tv_usec = 7\<rparr>\<rparr>,
            [SocketWrite 3 [1, 2]])"
    by (simp add: SessionData_write_def SessionData_init_def pass_through_def
          QLocalSocket_write_def env_1s_ok_def)
  have d: "socket (SessionData_init 3) = Some 3" by (simp add: SessionData_init_def)
  show ?thesis
    using a b c d
      C5_write_routes_to_channel [of handler_one_session 8 env_1s_ok "[1, 2]"]
      C5_write_routes_to_channel [of handler_one_session 7 env_1s_ok "[1, 2]" "SessionData_init 3"
        True "(SessionData_init 3)\<lparr>lastWrite := \<lparr>tv_sec = 101, tv_usec = 7\<rparr>\<rparr>"
        "[SocketWrite 3 [1, 2]]" 3]
    by simp
qed

text \<open>
  C6. When the handshake reads a non-negative identifier, \<^verbatim>\<open>socketReadable\<close> returns
  normally; an identifier not yet in \<^verbatim>\<open>m_idMap\<close> gets exactly one new entry, a fresh
  \<^verbatim>\<open>SessionData\<close> on the sending socket, and every other entry is untouched; an
  identifier already in the map leaves the map as it is, so the first channel is kept.
  A second handshake with the same identifier, from any socket, therefore changes
  nothing in the map.
\<close>

theorem C6_handshake_registration:
  assumes "0 \<le> sid"
  shows "\<exists>h'. SocketHandler_socketReadable sock (Some sid) h = Inr h'
          \<and> m_idMap h' = (case m_idMap h sid of
                            None \<Rightarrow> (m_idMap h)(sid \<mapsto> SessionData_init sock)
                          | Some sd \<Rightarrow> m_idMap h)
          \<and> m_tmpSocks h' = m_tmpSocks h \<and> trace h' = trace h
          \<and> (\<forall>sock2. \<exists>h''. SocketHandler_socketReadable sock2 (Some sid) h' = Inr h''
                \<and> m_idMap h'' = m_idMap h')"
  using assms by (auto simp: SocketHandler_socketReadable_def Let_def)

text \<open>C6, for identifier 7 on a handler without sessions, then again from socket 4.\<close>

theorem C6_handshake_registration_witness:
  "(0::int) \<le> 7
   \<and> (\<exists>h'. SocketHandler_socketReadable 3 (Some 7) SocketHandler_init = Inr h'
         \<and> m_idMap h' = [7 \<mapsto> SessionData_init 3]
         \<and> (\<exists>h''. SocketHandler_socketReadable 4 (Some 7) h' = Inr h''
               \<and> m_idMap h'' = [7 \<mapsto> SessionData_init 3]))"
proof -
  have a: "(0::int) \<le> 7" by simp
  have b: "m_idMap SocketHandler_init 7 = None" by (simp add: SocketHandler_init_def)
  have c: "m_idMap SocketHandler_init = Map.empty" by (simp add: SocketHandler_init_def)
  show ?thesis
    using C6_handshake_registration [OF a, of 3 SocketHandler_init] b c
    by (auto simp: )
qed

text \<open>
  C7. \<^verbatim>\<open>listen\<close> on a server that is already listening returns \<^verbatim>\<open>false\<close> and does
  nothing. Otherwise, if the first bind fails and the name starts with \<^verbatim>\<open>/\<close>, the call
  does exactly this, in order: the failed bind, one \<^verbatim>\<open>unlink\<close> of the name, one more
  bind; it returns whether that second bind succeeded.
\<close>

theorem C7_listen_unlinks_and_retries_once:
  "(isListening h \<longrightarrow> SocketHandler_listen bind_ok serverName h = (False, h))
   \<and> (\<not> isListening h \<and> \<not> bind_ok 0 \<and> first_is_slash serverName \<longrightarrow>
        SocketHandler_listen bind_ok serverName h =
          (bind_ok 1,
           h\<lparr>isListening := bind_ok 1,
             trace := trace h @ [Bind serverName, Unlink serverName, Bind serverName]\<rparr>))"
  by (simp add: SocketHandler_listen_def QLocalServer_listen_def Let_def)

text \<open>
  C7, at concrete inputs: a listening handler; a stale socket file that the retry
  overcomes; a bind that fails twice.
\<close>

theorem C7_listen_unlinks_and_retries_once_witness:
  "isListening handler_listening
   \<and> SocketHandler_listen bind_second_try ''/tmp/sensord'' handler_listening =
       (False, handler_listening)
   \<and> \<not> isListening SocketHandler_init \<and> \<not> bind_second_try 0 \<and> \<not> bind_never 0
   \<and> first_is_slash ''/tmp/sensord''
   \<and> SocketHandler_listen bind_second_try ''/tmp/sensord'' SocketHandler_init =
       (True,
        SocketHandler_init
          \<lparr>isListening := True,
           trace := [Bind ''/tmp/sensord'', Unlink ''/tmp/sensord'', Bind ''/tmp/sensord'']\<rparr>)
   \<and> SocketHandler_listen bind_never ''/tmp/sensord'' SocketHandler_init =
       (False,
        SocketHandler_init
          \<lparr>isListening := False,
           trace := [Bind ''/tmp/sensord'', Unlink ''/tmp/sensord'', Bind ''/tmp/sensord'']\<rparr>)"
proof -
  have a: "isListening handler_listening"
    by (simp add: handler_listening_def)
  have b: "\<not> isListening SocketHandler_init \<and> \<not> bind_second_try 0
           \<and> first_is_slash ''/tmp/sensord''"
    by (simp add: SocketHandler_init_def bind_second_try_def first_is_slash_def)
  have c: "\<not> isListening SocketHandler_init \<and> \<not> bind_never 0
           \<and> first_is_slash ''/tmp/sensord''"
    by (simp add: SocketHandler_init_def bind_never_def first_is_slash_def)
  have d: "bind_second_try 1" "\<not> bind_never 1" "trace SocketHandler_init = []"
    by (simp_all add: bind_second_try_def bind_never_def SocketHandler_init_def)
  show ?thesis
    using a b c d
      C7_listen_unlinks_and_retries_once [of handler_listening bind_second_try "''/tmp/sensord''"]
      C7_listen_unlinks_and_retries_once [of SocketHandler_init bind_second_try "''/tmp/sensord''"]
      C7_listen_unlinks_and_retries_once [of SocketHandler_init bind_never "''/tmp/sensord''"]
    by simp
qed

subsection \<open>NodeBase\<close>

text \<open>
  C8. The base-class hook \<^verbatim>\<open>NodeBase::setStandbyOverride\<close> returns \<^verbatim>\<open>false\<close> for both
  values of its argument and leaves every member of the node as it was.
\<close>

theorem C8_setStandbyOverride_always_false:
  "fst (setStandbyOverride override n) = False \<and> snd (setStandbyOverride override n) = n"
  by (simp add: setStandbyOverride_def)

end
